theory Spec2Isabelle
  imports Complex_Main
begin

section \<open>JavaScript values\<close>

text \<open>
  The client is JavaScript: every argument of a method is a value of any type. Numbers are
  kept exact (a rational, or one of the three non-finite Numbers; the rounding of
  floating-point arithmetic plays no part in the program), strings are lists of byte
  characters, arrays are lists and plain objects are association lists.
\<close>

datatype number = Finite rat | NaN | PosInfinity | NegInfinity

datatype jsval =
    JUndefined
  | JNull
  | JBool bool
  | JNum number
  | JStr string
  | JArr "jsval list"
  | JObj "(string \<times> jsval) list"

text \<open>
  What the program takes from the JavaScript engine and from the Joi library without
  containing it: how a Number that is not a plain integer prints, and which strings Joi
  converts to a number or to an array before it validates them (its \<open>convert\<close> option,
  on by default). Every operation below takes these as a parameter, and every theorem holds
  for all of them.
\<close>

record platform =
  numberToString :: "rat \<Rightarrow> string"
  parseNumber :: "string \<Rightarrow> rat option"
  parseArray :: "string \<Rightarrow> jsval list option"

text \<open>\<open>Boolean(v)\<close>: the values that count as true in a condition.\<close>

fun truthy :: "jsval \<Rightarrow> bool" where
  "truthy JUndefined = False"
| "truthy JNull = False"
| "truthy (JBool b) = b"
| "truthy (JNum n) = (n \<noteq> NaN \<and> n \<noteq> Finite 0)"
| "truthy (JStr s) = (s \<noteq> [])"
| "truthy (JArr xs) = True"
| "truthy (JObj kvs) = True"

subsection \<open>Conversion to a string\<close>

definition digit :: "nat \<Rightarrow> char" where
  "digit d = ''0123456789'' ! (d mod 10)"

function decimal :: "nat \<Rightarrow> string" where
  "decimal n = (if n < 10 then [digit n] else decimal (n div 10) @ [digit n])"
  by pat_completeness auto
termination
  by (relation "measure id") auto

declare decimal.simps [simp del]

definition isInteger :: "rat \<Rightarrow> bool" where
  "isInteger r = (r = of_int \<lfloor>r\<rfloor>)"

text \<open>\<open>Number.isSafeInteger\<close>: an integer of magnitude at most \<open>2^53 - 1\<close>.\<close>

definition isSafeInteger :: "rat \<Rightarrow> bool" where
  "isSafeInteger r = (isInteger r \<and> \<bar>r\<bar> \<le> 9007199254740991)"

text \<open>
  \<open>Number::toString\<close>: a safe integer prints as its decimal digits, with a minus sign
  when negative. The printing of every other finite Number (a fraction, or a larger
  integer, of which the engine prints the shortest digits that read back as the same
  Number) is the engine's.
\<close>

fun Number_toString :: "platform \<Rightarrow> number \<Rightarrow> string" where
  "Number_toString P NaN = ''NaN''"
| "Number_toString P PosInfinity = ''Infinity''"
| "Number_toString P NegInfinity = ''-Infinity''"
| "Number_toString P (Finite r) =
     (if isSafeInteger r
      then (if r < 0 then ''-'' @ decimal (nat (- \<lfloor>r\<rfloor>)) else decimal (nat \<lfloor>r\<rfloor>))
      else numberToString P r)"

text \<open>
  \<open>ToString\<close>, which a template literal applies to each interpolated value, and
  \<open>Array.prototype.join\<close>: an undefined or null element contributes the empty string.
\<close>

fun toString :: "platform \<Rightarrow> jsval \<Rightarrow> string"
  and element :: "platform \<Rightarrow> jsval \<Rightarrow> string"
  and join :: "platform \<Rightarrow> string \<Rightarrow> jsval list \<Rightarrow> string" where
  "toString P JUndefined = ''undefined''"
| "toString P JNull = ''null''"
| "toString P (JBool b) = (if b then ''true'' else ''false'')"
| "toString P (JNum n) = Number_toString P n"
| "toString P (JStr s) = s"
| "toString P (JArr xs) = join P '','' xs"
| "toString P (JObj kvs) = ''[object Object]''"
| "element P JUndefined = []"
| "element P JNull = []"
| "element P (JBool b) = toString P (JBool b)"
| "element P (JNum n) = toString P (JNum n)"
| "element P (JStr s) = toString P (JStr s)"
| "element P (JArr xs) = toString P (JArr xs)"
| "element P (JObj kvs) = toString P (JObj kvs)"
| "join P sep [] = []"
| "join P sep [x] = element P x"
| "join P sep (x # y # ys) = element P x @ sep @ join P sep (y # ys)"

section \<open>Regular expressions\<close>

text \<open>
  The two patterns of the program use character classes, concatenation, alternation,
  optional groups and a bounded repetition, and are anchored at both ends.
\<close>

datatype regex =
    Never
  | Empty
  | OneOf "char list"
  | Then regex regex
  | Either regex regex

definition optional :: "regex \<Rightarrow> regex" where
  "optional r = Either r Empty"

fun lit :: "string \<Rightarrow> regex" where
  "lit [] = Empty"
| "lit (c # cs) = Then (OneOf [c]) (lit cs)"

text \<open>\<open>r{1,2}\<close>\<close>

definition once_or_twice :: "regex \<Rightarrow> regex" where
  "once_or_twice r = Then r (optional r)"

text \<open>\<open>\d\<close>\<close>

definition digit_class :: regex where
  "digit_class = OneOf ''0123456789''"

fun lang :: "regex \<Rightarrow> string set" where
  "lang Never = {}"
| "lang Empty = {[]}"
| "lang (OneOf cs) = {[c] | c. c \<in> set cs}"
| "lang (Then r s) = {u @ v | u v. u \<in> lang r \<and> v \<in> lang s}"
| "lang (Either r s) = lang r \<union> lang s"

fun nullable :: "regex \<Rightarrow> bool" where
  "nullable Never = False"
| "nullable Empty = True"
| "nullable (OneOf cs) = False"
| "nullable (Then r s) = (nullable r \<and> nullable s)"
| "nullable (Either r s) = (nullable r \<or> nullable s)"

fun after :: "char \<Rightarrow> regex \<Rightarrow> regex" where
  "after c Never = Never"
| "after c Empty = Never"
| "after c (OneOf cs) = (if c \<in> set cs then Empty else Never)"
| "after c (Then r s) =
     (if nullable r then Either (Then (after c r) s) (after c s) else Then (after c r) s)"
| "after c (Either r s) = Either (after c r) (after c s)"

text \<open>\<open>/^r$/.test(s)\<close>: the whole string is consumed.\<close>

fun test :: "regex \<Rightarrow> string \<Rightarrow> bool" where
  "test r [] = nullable r"
| "test r (c # cs) = test (after c r) cs"


section \<open>The Joi rules the schemas use\<close>

text \<open>
  Modelled from the spec: the Joi validation library is not under src/. Each rule below is
  the constraint of the specification's table (section 4.1) for the Joi call of the same
  name, with the defaults of the library, which the table leaves out: a schema is optional
  unless \<open>required()\<close> is called, an undefined value passes an optional schema,
  \<open>valid(...)\<close> admits the listed values only, a string is converted before a number or
  an array schema tests it, and \<open>integer()\<close> is \<open>Number.isSafeInteger\<close>.
\<close>

datatype error = ValidationError | TypeError

text \<open>
  A schema: whether a value must be present, and which values other than undefined it
  accepts.
\<close>

record schema =
  isRequired :: bool
  accepts :: "jsval \<Rightarrow> bool"

definition Joi_validate :: "jsval \<Rightarrow> schema \<Rightarrow> error option" where
  "Joi_validate v s =
     (if v = JUndefined then (if isRequired s then Some ValidationError else None)
      else if accepts s v then None
      else Some ValidationError)"

text \<open>
  A chain of calls \<open>s.f().g()\<close> applies the rules to the schema from left to right.
\<close>

definition chain :: "schema \<Rightarrow> (schema \<Rightarrow> schema) list \<Rightarrow> schema" where
  "chain s rules = foldl (\<lambda>s rule. rule s) s rules"

definition required :: "schema \<Rightarrow> schema" where
  "required s = s\<lparr>isRequired := True\<rparr>"

definition valid :: "string list \<Rightarrow> schema \<Rightarrow> schema" where
  "valid vs s = s\<lparr>accepts := (\<lambda>v. v \<in> JStr ` set vs)\<rparr>"

subsection \<open>Strings\<close>

text \<open>\<open>Joi.string()\<close>: a string, and not the empty one.\<close>

definition Joi_string :: schema where
  "Joi_string = \<lparr>isRequired = False, accepts = (\<lambda>v. case v of JStr x \<Rightarrow> x \<noteq> [] | _ \<Rightarrow> False)\<rparr>"

definition string_rule :: "(string \<Rightarrow> bool) \<Rightarrow> schema \<Rightarrow> schema" where
  "string_rule p s =
     s\<lparr>accepts := (\<lambda>v. accepts s v \<and> (case v of JStr x \<Rightarrow> p x | _ \<Rightarrow> False))\<rparr>"

definition isAlphanum :: "char \<Rightarrow> bool" where
  "isAlphanum c =
     (c \<in> set ''abcdefghijklmnopqrstuvwxyzABCDEFGHIJKLMNOPQRSTUVWXYZ0123456789'')"

definition alphanum :: "schema \<Rightarrow> schema" where
  "alphanum = string_rule (\<lambda>x. x \<noteq> [] \<and> list_all isAlphanum x)"

definition string_min :: "nat \<Rightarrow> schema \<Rightarrow> schema" where
  "string_min n = string_rule (\<lambda>x. n \<le> length x)"

definition string_max :: "nat \<Rightarrow> schema \<Rightarrow> schema" where
  "string_max n = string_rule (\<lambda>x. length x \<le> n)"

definition regex :: "regex \<Rightarrow> schema \<Rightarrow> schema" where
  "regex r = string_rule (test r)"

subsection \<open>Numbers\<close>

text \<open>
  \<open>Joi.number()\<close>: a finite Number, or a string that Joi converts to a finite number;
  NaN and the two infinities are refused. The rules that follow test the converted value.
\<close>

definition converted :: "platform \<Rightarrow> jsval \<Rightarrow> number option" where
  "converted P v =
     (case v of
        JNum n \<Rightarrow> (case n of Finite r \<Rightarrow> Some n | _ \<Rightarrow> None)
      | JStr x \<Rightarrow> map_option Finite (parseNumber P x)
      | _ \<Rightarrow> None)"

definition Joi_number :: "platform \<Rightarrow> schema" where
  "Joi_number P = \<lparr>isRequired = False, accepts = (\<lambda>v. converted P v \<noteq> None)\<rparr>"

definition number_rule :: "platform \<Rightarrow> (number \<Rightarrow> bool) \<Rightarrow> schema \<Rightarrow> schema" where
  "number_rule P p s =
     s\<lparr>accepts := (\<lambda>v. accepts s v \<and> (case converted P v of Some n \<Rightarrow> p n | None \<Rightarrow> False))\<rparr>"

fun at_least :: "rat \<Rightarrow> number \<Rightarrow> bool" where
  "at_least k (Finite r) = (k \<le> r)"
| "at_least k NaN = False"
| "at_least k PosInfinity = True"
| "at_least k NegInfinity = False"

fun at_most :: "rat \<Rightarrow> number \<Rightarrow> bool" where
  "at_most k (Finite r) = (r \<le> k)"
| "at_most k NaN = False"
| "at_most k PosInfinity = False"
| "at_most k NegInfinity = True"

fun safe_integer :: "number \<Rightarrow> bool" where
  "safe_integer (Finite r) = isSafeInteger r"
| "safe_integer NaN = False"
| "safe_integer PosInfinity = False"
| "safe_integer NegInfinity = False"

definition integer :: "platform \<Rightarrow> schema \<Rightarrow> schema" where
  "integer P = number_rule P safe_integer"

definition number_min :: "platform \<Rightarrow> rat \<Rightarrow> schema \<Rightarrow> schema" where
  "number_min P k = number_rule P (at_least k)"

definition number_max :: "platform \<Rightarrow> rat \<Rightarrow> schema \<Rightarrow> schema" where
  "number_max P k = number_rule P (at_most k)"

subsection \<open>Arrays, alternatives and object keys\<close>

text \<open>
  \<open>Joi.array()\<close>: an array, or a string that Joi converts to one. \<open>items(s)\<close>: every
  element is defined and passes \<open>s\<close>.
\<close>

definition as_array :: "platform \<Rightarrow> jsval \<Rightarrow> jsval list option" where
  "as_array P v = (case v of JArr xs \<Rightarrow> Some xs | JStr x \<Rightarrow> parseArray P x | _ \<Rightarrow> None)"

definition Joi_array :: "platform \<Rightarrow> schema" where
  "Joi_array P = \<lparr>isRequired = False, accepts = (\<lambda>v. as_array P v \<noteq> None)\<rparr>"

definition items :: "platform \<Rightarrow> schema \<Rightarrow> schema \<Rightarrow> schema" where
  "items P item s =
     s\<lparr>accepts := (\<lambda>v. accepts s v \<and>
          (case as_array P v of
             Some xs \<Rightarrow> list_all (\<lambda>x. x \<noteq> JUndefined \<and> accepts item x) xs
           | None \<Rightarrow> False))\<rparr>"

text \<open>\<open>Joi.alternatives().try([...])\<close>: one of the schemas accepts the value.\<close>

definition alternatives_try :: "schema list \<Rightarrow> schema" where
  "alternatives_try ss =
     \<lparr>isRequired = False, accepts = (\<lambda>v. list_ex (\<lambda>s. accepts s v) ss)\<rparr>"

text \<open>
  \<open>Joi.validate({...}, Joi.object().keys({...}))\<close> on an object literal: no property
  outside the keys, and the value under each key (undefined when absent) passes the key's
  schema.
\<close>

definition property :: "(string \<times> jsval) list \<Rightarrow> string \<Rightarrow> jsval" where
  "property kvs k = (case map_of kvs k of Some v \<Rightarrow> v | None \<Rightarrow> JUndefined)"

definition Joi_validate_object ::
  "(string \<times> jsval) list \<Rightarrow> (string \<times> schema) list \<Rightarrow> error option" where
  "Joi_validate_object kvs keys =
     (if list_all (\<lambda>kv. fst kv \<in> set (map fst keys)) kvs \<and>
         list_all (\<lambda>ks. Joi_validate (property kvs (fst ks)) (snd ks) = None) keys
      then None else Some ValidationError)"

section \<open>The constants of the module\<close>

definition statementTypes :: "string list" where
  "statementTypes = [''pl'', ''bs'', ''cf'']"

definition periodTypes :: "string list" where
  "periodTypes = [''Q1'', ''Q2'', ''Q3'', ''Q4'', ''H1'', ''H2'', ''9M'', ''FY'']"

definition indicatorsMap :: "(string \<times> string) list" where
  "indicatorsMap =
     [
      (''0-3'', ''Number of employees''),
      (''0-5'', ''Founding year''),
      (''0-6'', ''Headquarter location''),
      (''0-73'', ''Sector classification''),
      (''0-71'', ''Ticker''),
      (''0-31'', ''Last closing price''),
      (''4-11'', ''Market capitalisation''),
      (''0-64'', ''Common shares outstanding''),
      (''0-65'', ''Preferred shares outstanding''),
      (''0-66'', ''Average shares outstanding, basic''),
      (''0-67'', ''Average shares outstanding, diluted''),
      (''1-1'', ''Revenues''),
      (''1-2'', ''Cost of goods sold''),
      (''1-4'', ''Gross profit''),
      (''1-11'', ''Operating expenses''),
      (''1-12'', ''Selling, general and administrative''),
      (''1-15'', ''Research and development expenses''),
      (''1-19'', ''Operating income (EBIT)''),
      (''4-10'', ''EBITDA''),
      (''1-21'', ''Net interest expense''),
      (''1-28'', ''Pretax income (adjusted)''),
      (''1-43'', ''Pretax income''),
      (''1-44'', ''Income taxes''),
      (''1-49'', ''Income from continuing operations''),
      (''1-58'', ''Net income (common shareholders)''),
      (''2-1'', ''Cash and cash-equivalents''),
      (''2-5'', ''Net receivables''),
      (''2-21'', ''Total current assets''),
      (''2-22'', ''Net property, plant and equipment''),
      (''2-41'', ''Total assets''),
      (''2-43'', ''Accounts payable''),
      (''2-47'', ''Current debt''),
      (''2-57'', ''Total current liabilities''),
      (''2-58'', ''Non current debt''),
      (''4-6'', ''Total debt''),
      (''2-73'', ''Total liabilities''),
      (''2-74'', ''Preferred equity''),
      (''2-76'', ''Common stock''),
      (''2-82'', ''Equity before minorities''),
      (''2-83'', ''Minority interest''),
      (''3-2'', ''Depreciation and amortisation''),
      (''3-7'', ''Change in working capital''),
      (''3-13'', ''Operating cash flow''),
      (''3-14'', ''Net change in PP & E and intangibles''),
      (''3-31'', ''Investing cash flow''),
      (''3-32'', ''Dividends paids''),
      (''3-43'', ''Financing cash flow''),
      (''3-46'', ''Net change in cash''),
      (''4-25'', ''Free cash flow''),
      (''4-0'', ''Gross margin''),
      (''4-1'', ''Operating margin''),
      (''4-2'', ''Net profit margin''),
      (''4-7'', ''Return on equity''),
      (''4-9'', ''Return on assets''),
      (''4-28'', ''Free cash flow to net income''),
      (''4-3'', ''Current ratio''),
      (''4-4'', ''Liabilities to equity ratio''),
      (''4-5'', ''Debt to assets ratio''),
      (''4-12'', ''Earnings per share, basic''),
      (''4-13'', ''Earnings per share, diluted''),
      (''4-17'', ''Sales per share''),
      (''4-18'', ''Book value per share''),
      (''4-26'', ''Free cash flow per share''),
      (''4-29'', ''Dividends per share''),
      (''4-14'', ''Price to earnings ratio''),
      (''4-15'', ''Price to sales ratio''),
      (''4-16'', ''Price to book value''),
      (''4-27'', ''Price to free cash flow''),
      (''4-20'', ''Enterprise value''),
      (''4-21'', ''EV/EBITDA''),
      (''4-22'', ''EV/Sales''),
      (''4-31'', ''EV/FCF''),
      (''4-23'', ''Book to market value''),
      (''4-24'', ''Operating income / EV''),
      (''4-30'', ''Pietroski F-Score'')
     ]"

text \<open>\<open>/^[0-4]-(\d){1,2}$/\<close>\<close>

definition indicator_pattern :: regex where
  "indicator_pattern = Then (OneOf ''01234'') (Then (lit ''-'') (once_or_twice digit_class))"

text \<open>\<open>/^TTM(-(\d){1,2}(\.(0|25|5|50|75))?)?$/\<close>\<close>

definition ttm_pattern :: regex where
  "ttm_pattern =
     Then (lit ''TTM'')
       (optional
         (Then (lit ''-'')
           (Then (once_or_twice digit_class)
             (optional
               (Then (lit ''.'')
                 (Either (lit ''0'')
                   (Either (lit ''25'')
                     (Either (lit ''5'') (Either (lit ''50'') (lit ''75''))))))))))"

subsection \<open>simfinParameters\<close>

definition simfinParameters_ticker :: schema where
  "simfinParameters_ticker = chain Joi_string [alphanum, string_min 2, string_max 10]"

definition simfinParameters_companyId :: "platform \<Rightarrow> schema" where
  "simfinParameters_companyId P = chain (Joi_number P) [integer P]"

definition simfinParameters_indicators :: "platform \<Rightarrow> schema" where
  "simfinParameters_indicators P =
     chain (Joi_array P) [items P (chain Joi_string [regex indicator_pattern])]"

definition simfinParameters_statementType :: schema where
  "simfinParameters_statementType = chain Joi_string [valid statementTypes]"

definition simfinParameters_periodType :: schema where
  "simfinParameters_periodType =
     alternatives_try
       [chain Joi_string [valid periodTypes], chain Joi_string [regex ttm_pattern]]"

definition simfinParameters_fiscalYear :: "platform \<Rightarrow> schema" where
  "simfinParameters_fiscalYear P =
     chain (Joi_number P) [integer P, number_min P 1900, number_max P 2018]"

definition statementRequestSchema :: "platform \<Rightarrow> (string \<times> schema) list" where
  "statementRequestSchema P =
     [(''companyId'', required (simfinParameters_companyId P)),
      (''statementType'', required simfinParameters_statementType),
      (''periodType'', required simfinParameters_periodType),
      (''fiscalYear'', required (simfinParameters_fiscalYear P))]"

definition ttmFinancialRatiosRequestSchema :: "platform \<Rightarrow> (string \<times> schema) list" where
  "ttmFinancialRatiosRequestSchema P =
     [(''companyId'', required (simfinParameters_companyId P)),
      (''indicators'', simfinParameters_indicators P)]"

section \<open>The class SimFin\<close>

record SimFin =
  baseURL :: string
  token :: jsval

definition new_SimFin :: "jsval \<Rightarrow> SimFin" where
  "new_SimFin tok = \<lparr>baseURL = ''https://simfin.com/api/v1/'', token = tok\<rparr>"

text \<open>The options object handed to the HTTP client \<open>rp\<close>.\<close>

record options =
  "method" :: string
  uri :: string
  qs :: "string \<rightharpoonup> jsval"
  json :: bool

text \<open>
  What a call of an asynchronous method does: \<open>Sent opts\<close> when \<open>rp\<close> was called, once,
  with \<open>opts\<close> and its promise returned; \<open>Rejected e\<close> when the method returned a
  rejected promise and \<open>rp\<close> was not called.
\<close>

datatype outcome = Rejected error | Sent options

text \<open>
  \<open>{'api-key': this.token, ...params}\<close>: the token first, then the properties of
  \<open>params\<close> over it; an undefined \<open>params\<close> spreads nothing.
\<close>

definition makeRequest ::
  "SimFin \<Rightarrow> string \<Rightarrow> string \<Rightarrow> (string \<rightharpoonup> jsval) option \<Rightarrow> outcome" where
  "makeRequest this route httpMethod params =
     Sent \<lparr>method = httpMethod,
           uri = baseURL this @ route,
           qs = [''api-key'' \<mapsto> token this] ++ (case params of None \<Rightarrow> Map.empty | Some m \<Rightarrow> m),
           json = True\<rparr>"

definition getCompanyIdByTicker :: "platform \<Rightarrow> SimFin \<Rightarrow> jsval \<Rightarrow> outcome" where
  "getCompanyIdByTicker P this ticker =
     (case Joi_validate ticker simfinParameters_ticker of
        Some error \<Rightarrow> Rejected error
      | None \<Rightarrow> makeRequest this (''info/find-id/ticker/'' @ toString P ticker) ''GET'' None)"

definition getCompanyIdByName :: "platform \<Rightarrow> SimFin \<Rightarrow> jsval \<Rightarrow> outcome" where
  "getCompanyIdByName P this name =
     makeRequest this (''info/find-id/name-search/'' @ toString P name) ''GET'' None"

definition getAllCompanies :: "SimFin \<Rightarrow> outcome" where
  "getAllCompanies this = makeRequest this ''info/all-entities'' ''GET'' None"


definition getAvailableCompanyStatements :: "platform \<Rightarrow> SimFin \<Rightarrow> jsval \<Rightarrow> outcome" where
  "getAvailableCompanyStatements P this companyId =
     makeRequest this (''companies/id/'' @ toString P companyId @ ''/statements/list'') ''GET'' None"

text \<open>
  The parameter \<open>standardised\<close> has the default \<open>false\<close>, which an omitted or undefined
  argument receives.
\<close>

definition getStatementData ::
  "platform \<Rightarrow> SimFin \<Rightarrow> jsval \<Rightarrow> jsval \<Rightarrow> jsval \<Rightarrow> jsval \<Rightarrow> jsval \<Rightarrow> outcome" where
  "getStatementData P this companyId statementType periodType fiscalYear standardised_arg =
     (let standardised =
            (if standardised_arg = JUndefined then JBool False else standardised_arg)
      in case Joi_validate_object
                [(''companyId'', companyId), (''statementType'', statementType),
                 (''periodType'', periodType), (''fiscalYear'', fiscalYear)]
                (statementRequestSchema P) of
           Some error \<Rightarrow> Rejected error
         | None \<Rightarrow>
             (let params = [''stype'' \<mapsto> statementType, ''ptype'' \<mapsto> periodType,
                            ''fyear'' \<mapsto> fiscalYear];
                  url = ''companies/id/'' @ toString P companyId @ ''/statements/'';
                  url = (if truthy standardised then url @ ''standardised''
                         else url @ ''original'')
              in makeRequest this url ''GET'' (Some params)))"

text \<open>
  \<open>indicators.join(',')\<close> is reached with a truthy value that passed validation: on an
  array it joins the elements; any other value has no method \<open>join\<close>, the call throws a
  TypeError and the asynchronous method returns a promise rejected with it.
\<close>

definition getTTMFinancialRatios :: "platform \<Rightarrow> SimFin \<Rightarrow> jsval \<Rightarrow> jsval \<Rightarrow> outcome" where
  "getTTMFinancialRatios P this companyId indicators =
     (case Joi_validate_object
             [(''companyId'', companyId), (''indicators'', indicators)]
             (ttmFinancialRatiosRequestSchema P) of
        Some error \<Rightarrow> Rejected error
      | None \<Rightarrow>
          (let route = ''companies/id/'' @ toString P companyId @ ''/ratios'' in
           if truthy indicators then
             (case indicators of
                JArr xs \<Rightarrow>
                  makeRequest this route ''GET'' (Some [''indicators'' \<mapsto> JStr (join P '','' xs)])
              | _ \<Rightarrow> Rejected TypeError)
           else makeRequest this route ''GET'' None))"

definition getFinancialIndicators :: "SimFin \<Rightarrow> (string \<times> string) list" where
  "getFinancialIndicators this = indicatorsMap"

definition getStatementTypes :: "SimFin \<Rightarrow> string list" where
  "getStatementTypes this = statementTypes"

definition getPeriodTypes :: "SimFin \<Rightarrow> string list" where
  "getPeriodTypes this = periodTypes"


section \<open>Instances for evaluation\<close>

text \<open>
  A platform and a client at which the operations are evaluated below. The inputs used
  there are Numbers, strings and arrays on which none of the platform's three functions is
  consulted.
\<close>

definition bare_platform :: platform where
  "bare_platform =
     \<lparr>numberToString = (\<lambda>r. []), parseNumber = (\<lambda>s. None), parseArray = (\<lambda>s. None)\<rparr>"

definition client :: SimFin where
  "client = new_SimFin (JStr ''secret'')"


section \<open>Properties of the rules and schemas\<close>

subsection \<open>The matcher decides membership in the language of a pattern\<close>

lemma nullable_lang: "nullable r \<longleftrightarrow> [] \<in> lang r"
  by (induction r) auto

lemma lang_after: "lang (after c r) = {s. c # s \<in> lang r}"
proof (induction r)
  case (Then r1 r2)
  show ?case
  proof (rule set_eqI)
    fix s
    have "c # s \<in> lang (Then r1 r2) \<longleftrightarrow>
          (\<exists>u v. c # s = u @ v \<and> u \<in> lang r1 \<and> v \<in> lang r2)"
      by auto
    also have "\<dots> \<longleftrightarrow> ([] \<in> lang r1 \<and> c # s \<in> lang r2) \<or>
          (\<exists>u' v. s = u' @ v \<and> c # u' \<in> lang r1 \<and> v \<in> lang r2)"
      by (auto simp: Cons_eq_append_conv)
    finally show "s \<in> lang (after c (Then r1 r2)) \<longleftrightarrow> s \<in> {s. c # s \<in> lang (Then r1 r2)}"
      using Then by (auto simp: nullable_lang)
  qed
qed auto

lemma test_lang: "test r s \<longleftrightarrow> s \<in> lang r"
  by (induction s arbitrary: r) (simp_all add: nullable_lang lang_after)

lemma validate_defined:
  "v \<noteq> JUndefined \<Longrightarrow> Joi_validate v s = (if accepts s v then None else Some ValidationError)"
  by (simp add: Joi_validate_def)

lemma validate_required:
  "Joi_validate v (required s) =
     (if v \<noteq> JUndefined \<and> accepts s v then None else Some ValidationError)"
  by (simp add: Joi_validate_def required_def)

lemma accepts_ticker:
  "accepts simfinParameters_ticker v \<longleftrightarrow>
     (\<exists>s. v = JStr s \<and> list_all isAlphanum s \<and> 2 \<le> length s \<and> length s \<le> 10)"
  by (cases v)
     (auto simp: simfinParameters_ticker_def chain_def string_max_def string_min_def alphanum_def
        string_rule_def Joi_string_def)

lemma accepts_companyId:
  "accepts (simfinParameters_companyId P) v \<longleftrightarrow>
     (\<exists>r. converted P v = Some (Finite r) \<and> isSafeInteger r)"
proof (cases "converted P v")
  case None
  then show ?thesis
    by (simp add: simfinParameters_companyId_def chain_def integer_def number_rule_def Joi_number_def)
next
  case (Some n)
  then show ?thesis
    by (cases n)
       (simp_all add: simfinParameters_companyId_def chain_def integer_def number_rule_def Joi_number_def)
qed

lemma accepts_fiscalYear:
  "accepts (simfinParameters_fiscalYear P) v \<longleftrightarrow>
     (\<exists>r. converted P v = Some (Finite r) \<and> isSafeInteger r \<and> 1900 \<le> r \<and> r \<le> 2018)"
proof (cases "converted P v")
  case None
  then show ?thesis
    by (simp add: simfinParameters_fiscalYear_def chain_def integer_def number_min_def number_max_def
          number_rule_def Joi_number_def)
next
  case (Some n)
  then show ?thesis
    by (cases n)
       (auto simp: simfinParameters_fiscalYear_def chain_def integer_def number_min_def number_max_def
          number_rule_def Joi_number_def)
qed

lemma accepts_statementType:
  "accepts simfinParameters_statementType v \<longleftrightarrow> v \<in> JStr ` set statementTypes"
  by (simp add: simfinParameters_statementType_def chain_def valid_def)

lemma accepts_periodType:
  "accepts simfinParameters_periodType v \<longleftrightarrow>
     (\<exists>s. v = JStr s \<and> (s \<in> set periodTypes \<or> test ttm_pattern s))"
proof (cases v)
  case (JStr s)
  have "test ttm_pattern s \<Longrightarrow> s \<noteq> []"
    by (auto simp: ttm_pattern_def)
  then show ?thesis using JStr
    by (auto simp: simfinParameters_periodType_def chain_def alternatives_try_def valid_def regex_def
          string_rule_def Joi_string_def Joi_validate_def)
qed (auto simp: simfinParameters_periodType_def chain_def alternatives_try_def valid_def regex_def
          string_rule_def Joi_string_def Joi_validate_def)

lemma accepts_indicators:
  "accepts (simfinParameters_indicators P) v \<longleftrightarrow>
     (\<exists>xs. as_array P v = Some xs \<and>
           list_all (\<lambda>x. \<exists>s. x = JStr s \<and> test indicator_pattern s) xs)"
proof -
  have item: "(x \<noteq> JUndefined \<and> accepts (regex indicator_pattern Joi_string) x) \<longleftrightarrow>
        (\<exists>s. x = JStr s \<and> test indicator_pattern s)" for x
  proof (cases x)
    case (JStr s)
    have "test indicator_pattern s \<Longrightarrow> s \<noteq> []"
      by (auto simp: indicator_pattern_def)
    then show ?thesis using JStr
      by (auto simp: regex_def string_rule_def Joi_string_def)
  qed (auto simp: regex_def string_rule_def Joi_string_def)
  show ?thesis
    by (cases "as_array P v")
       (simp_all add: simfinParameters_indicators_def chain_def items_def Joi_array_def item)
qed

lemma validate_statement:
  "Joi_validate_object
     [(''companyId'', companyId), (''statementType'', statementType),
      (''periodType'', periodType), (''fiscalYear'', fiscalYear)]
     (statementRequestSchema P) =
   (if Joi_validate companyId (required (simfinParameters_companyId P)) = None \<and>
       Joi_validate statementType (required simfinParameters_statementType) = None \<and>
       Joi_validate periodType (required simfinParameters_periodType) = None \<and>
       Joi_validate fiscalYear (required (simfinParameters_fiscalYear P)) = None
    then None else Some ValidationError)"
  by (simp add: Joi_validate_object_def statementRequestSchema_def property_def)

lemma validate_ratios:
  "Joi_validate_object
     [(''companyId'', companyId), (''indicators'', indicators)]
     (ttmFinancialRatiosRequestSchema P) =
   (if Joi_validate companyId (required (simfinParameters_companyId P)) = None \<and>
       Joi_validate indicators (simfinParameters_indicators P) = None
    then None else Some ValidationError)"
  by (simp add: Joi_validate_object_def ttmFinancialRatiosRequestSchema_def property_def)


lemma isInteger_of_int: "isInteger (of_int k)"
  by (simp add: isInteger_def)

lemma valid_companyId_integer:
  "\<bar>c\<bar> \<le> 9007199254740991 \<Longrightarrow>
   Joi_validate (JNum (Finite (of_int c))) (required (simfinParameters_companyId P)) = None"
proof -
  assume "\<bar>c\<bar> \<le> 9007199254740991"
  then have "\<bar>(of_int c :: rat)\<bar> \<le> of_int 9007199254740991"
    unfolding of_int_abs [symmetric] of_int_le_iff .
  then have "isSafeInteger (of_int c)"
    by (simp add: isSafeInteger_def isInteger_of_int)
  then show ?thesis
    by (simp add: validate_required accepts_companyId converted_def)
qed

lemma toString_111052: "toString P (JNum (Finite 111052)) = ''111052''"
proof -
  have "isSafeInteger 111052"
    by (simp add: isSafeInteger_def isInteger_def)
  then show ?thesis
    by (simp add: decimal.simps digit_def)
qed

lemma valid_fiscalYear_2017:
  "Joi_validate (JNum (Finite 2017)) (required (simfinParameters_fiscalYear P)) = None"
proof -
  have "isSafeInteger 2017"
    by (simp add: isSafeInteger_def isInteger_def)
  then show ?thesis
    by (simp add: validate_required accepts_fiscalYear converted_def)
qed

lemma valid_statementType_pl:
  "Joi_validate (JStr ''pl'') (required simfinParameters_statementType) = None"
  by (simp add: validate_required accepts_statementType statementTypes_def)

lemma valid_periodType_FY:
  "Joi_validate (JStr ''FY'') (required simfinParameters_periodType) = None"
  by (simp add: validate_required accepts_periodType periodTypes_def)

lemma valid_companyId_111052:
  "Joi_validate (JNum (Finite 111052)) (required (simfinParameters_companyId P)) = None"
  using valid_companyId_integer [of 111052 P] by simp

subsection \<open>The validated operations, case by case\<close>


lemma getStatementData_eq:
  "getStatementData P this companyId statementType periodType fiscalYear standardised =
     (if Joi_validate companyId (required (simfinParameters_companyId P)) = None \<and>
         Joi_validate statementType (required simfinParameters_statementType) = None \<and>
         Joi_validate periodType (required simfinParameters_periodType) = None \<and>
         Joi_validate fiscalYear (required (simfinParameters_fiscalYear P)) = None
      then makeRequest this
             (''companies/id/'' @ toString P companyId @ ''/statements/'' @
                (if truthy standardised then ''standardised'' else ''original''))
             ''GET''
             (Some [''stype'' \<mapsto> statementType, ''ptype'' \<mapsto> periodType,
                    ''fyear'' \<mapsto> fiscalYear])
      else Rejected ValidationError)"
  by (simp add: getStatementData_def validate_statement Let_def)

lemma getTTMFinancialRatios_array:
  assumes "Joi_validate companyId (required (simfinParameters_companyId P)) = None"
    and "list_all (test indicator_pattern) xs"
  shows "getTTMFinancialRatios P this companyId (JArr (map JStr xs)) =
           makeRequest this (''companies/id/'' @ toString P companyId @ ''/ratios'') ''GET''
             (Some [''indicators'' \<mapsto> JStr (join P '','' (map JStr xs))])"
proof -
  have "accepts (simfinParameters_indicators P) (JArr (map JStr xs))"
    using assms(2) by (simp add: accepts_indicators as_array_def list_all_iff)
  then have "Joi_validate (JArr (map JStr xs)) (simfinParameters_indicators P) = None"
    by (simp add: validate_defined)
  then show ?thesis
    using assms(1) by (simp add: getTTMFinancialRatios_def validate_ratios)
qed

section \<open>Properties of the operations\<close>

text \<open>
  In what follows a result \<open>Sent opts\<close> says that the operation called the HTTP client
  with the options \<open>opts\<close>; a result of the form
  \<open>makeRequest this route ''GET'' params\<close> says that the operation built that route and
  those query parameters and handed them to the request primitive, which always calls the
  client; a result \<open>Rejected ValidationError\<close> says that the operation returned the
  validation failure and made no call.
\<close>




text \<open>
  C2. For every route, method and query-parameter map (or none) passed to
  \<open>makeRequest\<close>, the client is called with the method, with the base URL followed by
  the route, and with query parameters in which \<open>api-key\<close> is the value the caller's map
  gives that key when it has it, and the configured token otherwise.
\<close>

theorem makeRequest_api_key:
  "\<exists>opts. makeRequest this route httpMethod params = Sent opts \<and>
      method opts = httpMethod \<and> uri opts = baseURL this @ route \<and>
      qs opts ''api-key'' =
        Some (case params of
                None \<Rightarrow> token this
              | Some ps \<Rightarrow> (case ps ''api-key'' of None \<Rightarrow> token this | Some v \<Rightarrow> v))"
  by (simp add: makeRequest_def map_add_def split: option.split)

text \<open>
  C3. For every valid company id, \<open>getStatementData(companyId, 'pl', 'FY', 2017, true)\<close>
  builds the route \<open>companies/id/{companyId}/statements/standardised\<close> with the query
  \<open>{stype: 'pl', ptype: 'FY', fyear: 2017}\<close>, and the same call with the last argument
  omitted builds the route ending in \<open>statements/original\<close> with the same query.
\<close>

theorem getStatementData_route:
  assumes "Joi_validate companyId (required (simfinParameters_companyId P)) = None"
  shows "getStatementData P this companyId (JStr ''pl'') (JStr ''FY'') (JNum (Finite 2017))
           (JBool True) =
         makeRequest this (''companies/id/'' @ toString P companyId @ ''/statements/standardised'')
           ''GET''
           (Some [''stype'' \<mapsto> JStr ''pl'', ''ptype'' \<mapsto> JStr ''FY'',
                  ''fyear'' \<mapsto> JNum (Finite 2017)]) \<and>
         getStatementData P this companyId (JStr ''pl'') (JStr ''FY'') (JNum (Finite 2017))
           JUndefined =
         makeRequest this (''companies/id/'' @ toString P companyId @ ''/statements/original'')
           ''GET''
           (Some [''stype'' \<mapsto> JStr ''pl'', ''ptype'' \<mapsto> JStr ''FY'',
                  ''fyear'' \<mapsto> JNum (Finite 2017)])"
proof -
  have st: "Joi_validate (JStr ''pl'') (required simfinParameters_statementType) = None"
    by (simp add: validate_required accepts_statementType statementTypes_def)
  have pt: "Joi_validate (JStr ''FY'') (required simfinParameters_periodType) = None"
    by (simp add: validate_required accepts_periodType periodTypes_def)
  have "isSafeInteger 2017"
    by (simp add: isSafeInteger_def isInteger_def)
  then have fy: "Joi_validate (JNum (Finite 2017)) (required (simfinParameters_fiscalYear P)) = None"
    by (simp add: validate_required accepts_fiscalYear converted_def)
  show ?thesis
    by (simp add: getStatementData_def validate_statement assms st pt fy)
qed

theorem getStatementData_route_witness:
  "Joi_validate (JNum (Finite 111052)) (required (simfinParameters_companyId bare_platform)) = None \<and>
   getStatementData bare_platform client (JNum (Finite 111052)) (JStr ''pl'') (JStr ''FY'')
     (JNum (Finite 2017)) (JBool True) =
   Sent \<lparr>method = ''GET'',
         uri = ''https://simfin.com/api/v1/companies/id/111052/statements/standardised'',
         qs = [''api-key'' \<mapsto> JStr ''secret'', ''stype'' \<mapsto> JStr ''pl'',
               ''ptype'' \<mapsto> JStr ''FY'', ''fyear'' \<mapsto> JNum (Finite 2017)],
         json = True\<rparr> \<and>
   getStatementData bare_platform client (JNum (Finite 111052)) (JStr ''pl'') (JStr ''FY'')
     (JNum (Finite 2017)) JUndefined =
   Sent \<lparr>method = ''GET'',
         uri = ''https://simfin.com/api/v1/companies/id/111052/statements/original'',
         qs = [''api-key'' \<mapsto> JStr ''secret'', ''stype'' \<mapsto> JStr ''pl'',
               ''ptype'' \<mapsto> JStr ''FY'', ''fyear'' \<mapsto> JNum (Finite 2017)],
         json = True\<rparr>"
proof -
  have v: "Joi_validate (JNum (Finite 111052)) (required (simfinParameters_companyId bare_platform)) = None"
    using valid_companyId_integer [of 111052 bare_platform] by simp
  note r = getStatementData_route [OF v, of client, unfolded toString_111052]
  show ?thesis
    using v r by (simp add: makeRequest_def client_def new_SimFin_def)
qed

text \<open>
  C4. \<open>getStatementData\<close> rejects with a validation error, and makes no call, for every
  fiscal year that is not an integer from 1900 to 2018 and for every statement type other
  than \<open>pl\<close>, \<open>bs\<close> and \<open>cf\<close>, whatever the other arguments are. The fiscal year is
  taken as Joi reads it: a Number as itself, a string through the conversion, any other
  value as no number at all.
\<close>

theorem getStatementData_rejects:
  "((\<forall>k::int. 1900 \<le> k \<and> k \<le> 2018 \<longrightarrow> converted P fiscalYear \<noteq> Some (Finite (of_int k))) \<longrightarrow>
      getStatementData P this companyId statementType periodType fiscalYear standardised =
        Rejected ValidationError) \<and>
   (statementType \<noteq> JStr ''pl'' \<and> statementType \<noteq> JStr ''bs'' \<and> statementType \<noteq> JStr ''cf'' \<longrightarrow>
      getStatementData P this companyId statementType periodType fiscalYear standardised =
        Rejected ValidationError)"
proof (intro conjI impI)
  assume out: "\<forall>k::int. 1900 \<le> k \<and> k \<le> 2018 \<longrightarrow> converted P fiscalYear \<noteq> Some (Finite (of_int k))"
  have "\<not> accepts (simfinParameters_fiscalYear P) fiscalYear"
  proof
    assume "accepts (simfinParameters_fiscalYear P) fiscalYear"
    then obtain r where r: "converted P fiscalYear = Some (Finite r)" "isSafeInteger r"
      "1900 \<le> r" "r \<le> 2018"
      by (auto simp: accepts_fiscalYear)
    from r(2) have eq: "r = of_int \<lfloor>r\<rfloor>"
      by (simp add: isSafeInteger_def isInteger_def)
    from r(3) have "1900 \<le> \<lfloor>r\<rfloor>" by (simp add: le_floor_iff)
    moreover from r(4) have "\<lfloor>r\<rfloor> \<le> 2018" by (simp add: floor_le_iff)
    ultimately show False using out r(1) eq by metis
  qed
  then show "getStatementData P this companyId statementType periodType fiscalYear standardised =
        Rejected ValidationError"
    by (simp add: getStatementData_eq validate_required)
next
  assume "statementType \<noteq> JStr ''pl'' \<and> statementType \<noteq> JStr ''bs'' \<and> statementType \<noteq> JStr ''cf''"
  then have "\<not> accepts simfinParameters_statementType statementType"
    by (auto simp: accepts_statementType statementTypes_def)
  then show "getStatementData P this companyId statementType periodType fiscalYear standardised =
        Rejected ValidationError"
    by (simp add: getStatementData_eq validate_required)
qed

theorem getStatementData_rejects_witness:
  "getStatementData bare_platform client (JNum (Finite 111052)) (JStr ''pl'') (JStr ''FY'')
     (JNum (Finite 2019)) (JBool True) = Rejected ValidationError \<and>
   getStatementData bare_platform client (JNum (Finite 111052)) (JStr ''pl'') (JStr ''FY'')
     (JNum (Finite (4035 / 2))) (JBool True) = Rejected ValidationError \<and>
   getStatementData bare_platform client (JNum (Finite 111052)) (JStr ''PL'') (JStr ''FY'')
     (JNum (Finite 2017)) (JBool True) = Rejected ValidationError"
proof -
  have a: "\<forall>k::int. 1900 \<le> k \<and> k \<le> 2018 \<longrightarrow>
      converted bare_platform (JNum (Finite 2019)) \<noteq> Some (Finite (of_int k))"
    by (auto simp: converted_def)
  have "(4035 / 2 :: rat) \<noteq> of_int k" for k :: int
  proof
    assume "(4035 / 2 :: rat) = of_int k"
    then have "(of_int 4035 :: rat) = of_int (2 * k)" by simp
    then have "(4035 :: int) = 2 * k" unfolding of_int_eq_iff .
    then show False by presburger
  qed
  then have b: "\<forall>k::int. 1900 \<le> k \<and> k \<le> 2018 \<longrightarrow>
      converted bare_platform (JNum (Finite (4035 / 2))) \<noteq> Some (Finite (of_int k))"
    by (simp add: converted_def)
  have c: "JStr ''PL'' \<noteq> JStr ''pl'' \<and> JStr ''PL'' \<noteq> JStr ''bs'' \<and> JStr ''PL'' \<noteq> JStr ''cf''"
    by simp
  show ?thesis
    using getStatementData_rejects [of bare_platform "JNum (Finite 2019)" client
        "JNum (Finite 111052)" "JStr ''pl''" "JStr ''FY''" "JBool True"]
      getStatementData_rejects [of bare_platform "JNum (Finite (4035 / 2))" client
        "JNum (Finite 111052)" "JStr ''pl''" "JStr ''FY''" "JBool True"]
      getStatementData_rejects [of bare_platform "JNum (Finite 2017)" client
        "JNum (Finite 111052)" "JStr ''PL''" "JStr ''FY''" "JBool True"]
      a b c
    by blast
qed

text \<open>
  C5. For every ticker string, \<open>getCompanyIdByTicker\<close> issues a GET to the route
  \<open>info/find-id/ticker/{ticker}\<close> when the string is alphanumeric and of length 2 to 10,
  and otherwise rejects with a validation error without calling the client.
\<close>

theorem getCompanyIdByTicker_checks_ticker:
  "getCompanyIdByTicker P this (JStr s) =
     (if list_all isAlphanum s \<and> 2 \<le> length s \<and> length s \<le> 10
      then Sent \<lparr>method = ''GET'',
                 uri = baseURL this @ ''info/find-id/ticker/'' @ s,
                 qs = [''api-key'' \<mapsto> token this],
                 json = True\<rparr>
      else Rejected ValidationError)"
  by (simp add: getCompanyIdByTicker_def validate_defined accepts_ticker makeRequest_def)

theorem getCompanyIdByTicker_checks_ticker_witness:
  "getCompanyIdByTicker bare_platform client (JStr ''AAPL'') =
     Sent \<lparr>method = ''GET'',
           uri = ''https://simfin.com/api/v1/info/find-id/ticker/AAPL'',
           qs = [''api-key'' \<mapsto> JStr ''secret''],
           json = True\<rparr> \<and>
   getCompanyIdByTicker bare_platform client (JStr ''A'') = Rejected ValidationError \<and>
   getCompanyIdByTicker bare_platform client (JStr ''BRK.B'') = Rejected ValidationError \<and>
   getCompanyIdByTicker bare_platform client (JStr ''ABCDEFGHIJK'') = Rejected ValidationError"
  using getCompanyIdByTicker_checks_ticker [of bare_platform client "''AAPL''"]
    getCompanyIdByTicker_checks_ticker [of bare_platform client "''A''"]
    getCompanyIdByTicker_checks_ticker [of bare_platform client "''BRK.B''"]
    getCompanyIdByTicker_checks_ticker [of bare_platform client "''ABCDEFGHIJK''"]
  by (simp add: isAlphanum_def client_def new_SimFin_def)

text \<open>
  C6. With the other arguments valid, \<open>getStatementData\<close> accepts a period type exactly
  when it is a string that is one of \<open>Q1, Q2, Q3, Q4, H1, H2, 9M, FY\<close> or is in the
  language of the pattern \<open>^TTM(-\d{1,2}(\.(0|25|5|50|75))?)?$\<close>; for every other value
  it rejects with a validation error and makes no call.
\<close>

theorem getStatementData_periodType:
  assumes "Joi_validate companyId (required (simfinParameters_companyId P)) = None"
    and "Joi_validate statementType (required simfinParameters_statementType) = None"
    and "Joi_validate fiscalYear (required (simfinParameters_fiscalYear P)) = None"
  shows "getStatementData P this companyId statementType periodType fiscalYear standardised =
     (if \<exists>s. periodType = JStr s \<and> (s \<in> set periodTypes \<or> s \<in> lang ttm_pattern)
      then makeRequest this
             (''companies/id/'' @ toString P companyId @ ''/statements/'' @
                (if truthy standardised then ''standardised'' else ''original''))
             ''GET''
             (Some [''stype'' \<mapsto> statementType, ''ptype'' \<mapsto> periodType,
                    ''fyear'' \<mapsto> fiscalYear])
      else Rejected ValidationError)"
proof -
  have "Joi_validate periodType (required simfinParameters_periodType) = None \<longleftrightarrow>
        (\<exists>s. periodType = JStr s \<and> (s \<in> set periodTypes \<or> s \<in> lang ttm_pattern))"
    by (auto simp: validate_required accepts_periodType test_lang)
  then show ?thesis
    using assms by (simp add: getStatementData_eq)
qed

theorem getStatementData_periodType_witness:
  "getStatementData bare_platform client (JNum (Finite 111052)) (JStr ''pl'') (JStr ''TTM-1.25'')
     (JNum (Finite 2017)) JUndefined =
   Sent \<lparr>method = ''GET'',
         uri = ''https://simfin.com/api/v1/companies/id/111052/statements/original'',
         qs = [''api-key'' \<mapsto> JStr ''secret'', ''stype'' \<mapsto> JStr ''pl'',
               ''ptype'' \<mapsto> JStr ''TTM-1.25'', ''fyear'' \<mapsto> JNum (Finite 2017)],
         json = True\<rparr> \<and>
   getStatementData bare_platform client (JNum (Finite 111052)) (JStr ''pl'') (JStr ''9M'')
     (JNum (Finite 2017)) JUndefined =
   Sent \<lparr>method = ''GET'',
         uri = ''https://simfin.com/api/v1/companies/id/111052/statements/original'',
         qs = [''api-key'' \<mapsto> JStr ''secret'', ''stype'' \<mapsto> JStr ''pl'',
               ''ptype'' \<mapsto> JStr ''9M'', ''fyear'' \<mapsto> JNum (Finite 2017)],
         json = True\<rparr> \<and>
   getStatementData bare_platform client (JNum (Finite 111052)) (JStr ''pl'') (JStr ''TTM-1.2'')
     (JNum (Finite 2017)) JUndefined = Rejected ValidationError \<and>
   getStatementData bare_platform client (JNum (Finite 111052)) (JStr ''pl'') (JStr ''Q5'')
     (JNum (Finite 2017)) JUndefined = Rejected ValidationError"
proof -
  note r = getStatementData_periodType [OF valid_companyId_111052 valid_statementType_pl
      valid_fiscalYear_2017, of bare_platform client _ JUndefined, unfolded toString_111052]
  have a: "''TTM-1.25'' \<in> lang ttm_pattern"
    unfolding test_lang [symmetric]
    by (simp add: ttm_pattern_def optional_def once_or_twice_def digit_class_def)
  have b: "''TTM-1.2'' \<notin> lang ttm_pattern"
    unfolding test_lang [symmetric]
    by (simp add: ttm_pattern_def optional_def once_or_twice_def digit_class_def)
  have c: "''Q5'' \<notin> lang ttm_pattern"
    unfolding test_lang [symmetric]
    by (simp add: ttm_pattern_def optional_def once_or_twice_def digit_class_def)
  show ?thesis
    using r [of "JStr ''TTM-1.25''"] r [of "JStr ''9M''"] r [of "JStr ''TTM-1.2''"]
      r [of "JStr ''Q5''"] a b c
    by (simp add: periodTypes_def makeRequest_def client_def new_SimFin_def)
qed

text \<open>
  C7, in the form that holds of the code. For every safe integer company id (an integer
  of magnitude at most \<open>2^53 - 1\<close>, which is what Joi's integer rule accepts) and every
  non-empty array of strings that each match \<open>^[0-4]-\d{1,2}$\<close>,
  \<open>getTTMFinancialRatios\<close> issues a GET to \<open>companies/id/{companyId}/ratios\<close> with the
  query \<open>indicators\<close> set to the elements joined by commas; for \<open>['1-1', '2-1']\<close> the
  query is \<open>{indicators: '1-1,2-1'}\<close>.
\<close>

theorem getTTMFinancialRatios_joins:
  assumes "\<bar>c\<bar> \<le> 9007199254740991" and "xs \<noteq> []"
    and "list_all (\<lambda>x. x \<in> lang indicator_pattern) xs"
  shows "getTTMFinancialRatios P this (JNum (Finite (of_int c))) (JArr (map JStr xs)) =
           Sent \<lparr>method = ''GET'',
                 uri = baseURL this @ ''companies/id/'' @ toString P (JNum (Finite (of_int c))) @
                         ''/ratios'',
                 qs = [''api-key'' \<mapsto> token this,
                       ''indicators'' \<mapsto> JStr (join P '','' (map JStr xs))],
                 json = True\<rparr> \<and>
         getTTMFinancialRatios P this (JNum (Finite (of_int c))) (JArr [JStr ''1-1'', JStr ''2-1'']) =
           Sent \<lparr>method = ''GET'',
                 uri = baseURL this @ ''companies/id/'' @ toString P (JNum (Finite (of_int c))) @
                         ''/ratios'',
                 qs = [''api-key'' \<mapsto> token this, ''indicators'' \<mapsto> JStr ''1-1,2-1''],
                 json = True\<rparr>"
proof -
  note v = valid_companyId_integer [OF assms(1), of P]
  have m: "list_all (test indicator_pattern) xs"
    using assms(3) by (simp add: test_lang list_all_iff)
  have e: "list_all (test indicator_pattern) [''1-1'', ''2-1'']"
    by (simp add: indicator_pattern_def optional_def once_or_twice_def digit_class_def)
  show ?thesis
    using getTTMFinancialRatios_array [OF v m, of this]
      getTTMFinancialRatios_array [OF v e, of this]
    by (simp add: makeRequest_def)
qed

theorem getTTMFinancialRatios_joins_witness:
  "getTTMFinancialRatios bare_platform client (JNum (Finite 111052))
     (JArr [JStr ''4-31'', JStr ''1-1'', JStr ''2-1'']) =
   Sent \<lparr>method = ''GET'',
         uri = ''https://simfin.com/api/v1/companies/id/111052/ratios'',
         qs = [''api-key'' \<mapsto> JStr ''secret'', ''indicators'' \<mapsto> JStr ''4-31,1-1,2-1''],
         json = True\<rparr>"
proof -
  have a: "\<bar>111052 :: int\<bar> \<le> 9007199254740991"
    by simp
  have b: "[''4-31'', ''1-1'', ''2-1''] \<noteq> []"
    by simp
  have c: "list_all (\<lambda>x. x \<in> lang indicator_pattern) [''4-31'', ''1-1'', ''2-1'']"
    unfolding test_lang [symmetric]
    by (simp add: indicator_pattern_def optional_def once_or_twice_def digit_class_def)
  from getTTMFinancialRatios_joins [OF a b c, of bare_platform client]
  have "getTTMFinancialRatios bare_platform client (JNum (Finite 111052))
          (JArr [JStr ''4-31'', JStr ''1-1'', JStr ''2-1'']) =
        Sent \<lparr>method = ''GET'',
              uri = baseURL client @ ''companies/id/'' @
                      toString bare_platform (JNum (Finite 111052)) @ ''/ratios'',
              qs = [''api-key'' \<mapsto> token client, ''indicators'' \<mapsto> JStr ''4-31,1-1,2-1''],
              json = True\<rparr>"
    by simp
  then show ?thesis
    unfolding toString_111052 by (simp add: client_def new_SimFin_def)
qed

text \<open>
  C7 does not extend to every integer: at \<open>2^53\<close>, an integer that is not safe, the call
  is rejected with a validation error.
\<close>

theorem getTTMFinancialRatios_unsafe_integer:
  "getTTMFinancialRatios bare_platform client (JNum (Finite 9007199254740992))
     (JArr [JStr ''1-1'', JStr ''2-1'']) = Rejected ValidationError"
  by (simp add: getTTMFinancialRatios_def validate_ratios validate_required accepts_companyId
        converted_def isSafeInteger_def)

text \<open>
  C8, in the form that holds of the code. \<open>getFinancialIndicators\<close> returns the same constant catalogue for
  every client, without any request. The catalogue has exactly 75 entries, with pairwise
  different keys, each a category from 0 to 4, a hyphen and an index of one or two digits.
\<close>

theorem getFinancialIndicators_catalog:
  "getFinancialIndicators this = indicatorsMap \<and>
   length indicatorsMap = 75 \<and>
   distinct (map fst indicatorsMap) \<and>
   list_all (\<lambda>k. k \<in> lang indicator_pattern) (map fst indicatorsMap)"
proof -
  have "length indicatorsMap = 75"
    by (simp add: indicatorsMap_def)
  moreover have "distinct (map fst indicatorsMap)"
    by (simp add: indicatorsMap_def)
  moreover have "list_all (\<lambda>k. k \<in> lang indicator_pattern) (map fst indicatorsMap)"
    unfolding test_lang [symmetric]
    by (simp add: indicatorsMap_def indicator_pattern_def optional_def once_or_twice_def
          digit_class_def)
  ultimately show ?thesis
    by (simp add: getFinancialIndicators_def)
qed

text \<open>C8 with the count 80 fails: the catalogue does not have 80 entries.\<close>

theorem getFinancialIndicators_not_80:
  "length (getFinancialIndicators client) \<noteq> 80"
  by (simp add: getFinancialIndicators_def indicatorsMap_def)

text \<open>
  C9, in the form that holds of the code. For every safe integer company id (an integer
  of magnitude at most \<open>2^53 - 1\<close>), \<open>getTTMFinancialRatios\<close> with the empty array
  passes validation and issues a GET to \<open>companies/id/{companyId}/ratios\<close> whose query
  has \<open>indicators\<close> set to the empty string.
\<close>

theorem getTTMFinancialRatios_empty_array:
  assumes "\<bar>c\<bar> \<le> 9007199254740991"
  shows "Joi_validate (JArr []) (simfinParameters_indicators P) = None \<and>
         getTTMFinancialRatios P this (JNum (Finite (of_int c))) (JArr []) =
           Sent \<lparr>method = ''GET'',
                 uri = baseURL this @ ''companies/id/'' @ toString P (JNum (Finite (of_int c))) @
                         ''/ratios'',
                 qs = [''api-key'' \<mapsto> token this, ''indicators'' \<mapsto> JStr []],
                 json = True\<rparr>"
proof -
  have v: "Joi_validate (JArr []) (simfinParameters_indicators P) = None"
    by (simp add: validate_defined accepts_indicators as_array_def)
  have e: "list_all (test indicator_pattern) []"
    by simp
  show ?thesis
    using v getTTMFinancialRatios_array [OF valid_companyId_integer [OF assms, of P] e, of this]
    by (simp add: makeRequest_def)
qed

theorem getTTMFinancialRatios_empty_array_witness:
  "getTTMFinancialRatios bare_platform client (JNum (Finite 111052)) (JArr []) =
   Sent \<lparr>method = ''GET'',
         uri = ''https://simfin.com/api/v1/companies/id/111052/ratios'',
         qs = [''api-key'' \<mapsto> JStr ''secret'', ''indicators'' \<mapsto> JStr []],
         json = True\<rparr>"
proof -
  have a: "\<bar>111052 :: int\<bar> \<le> 9007199254740991"
    by simp
  from getTTMFinancialRatios_empty_array [OF a, of bare_platform client]
  have "getTTMFinancialRatios bare_platform client (JNum (Finite 111052)) (JArr []) =
        Sent \<lparr>method = ''GET'',
              uri = baseURL client @ ''companies/id/'' @
                      toString bare_platform (JNum (Finite 111052)) @ ''/ratios'',
              qs = [''api-key'' \<mapsto> token client, ''indicators'' \<mapsto> JStr []],
              json = True\<rparr>"
    by simp
  then show ?thesis
    unfolding toString_111052 by (simp add: client_def new_SimFin_def)
qed

text \<open>
  C9 does not extend to every integer: at \<open>2^53\<close> the call with the empty array is
  rejected with a validation error.
\<close>

theorem getTTMFinancialRatios_empty_array_unsafe_integer:
  "getTTMFinancialRatios bare_platform client (JNum (Finite 9007199254740992)) (JArr []) =
     Rejected ValidationError"
  by (simp add: getTTMFinancialRatios_def validate_ratios validate_required accepts_companyId
        converted_def isSafeInteger_def)

text \<open>
  C10. The argument \<open>standardised\<close> is not validated. For valid other arguments and every
  value of \<open>standardised\<close>, the route ends in \<open>statements/standardised\<close> when the value is
  truthy and in \<open>statements/original\<close> when it is falsy; the string \<open>'false'\<close> and the
  number 1 are truthy, and \<open>false\<close>, 0, null, undefined and the empty string are falsy.
\<close>

theorem getStatementData_standardised:
  assumes "Joi_validate companyId (required (simfinParameters_companyId P)) = None"
    and "Joi_validate statementType (required simfinParameters_statementType) = None"
    and "Joi_validate periodType (required simfinParameters_periodType) = None"
    and "Joi_validate fiscalYear (required (simfinParameters_fiscalYear P)) = None"
  shows "getStatementData P this companyId statementType periodType fiscalYear standardised =
           makeRequest this
             (''companies/id/'' @ toString P companyId @ ''/statements/'' @
                (if truthy standardised then ''standardised'' else ''original''))
             ''GET''
             (Some [''stype'' \<mapsto> statementType, ''ptype'' \<mapsto> periodType,
                    ''fyear'' \<mapsto> fiscalYear]) \<and>
         truthy (JStr ''false'') \<and> truthy (JNum (Finite 1)) \<and>
         \<not> truthy (JBool False) \<and> \<not> truthy (JNum (Finite 0)) \<and> \<not> truthy JNull \<and>
         \<not> truthy JUndefined \<and> \<not> truthy (JStr [])"
  using assms by (simp add: getStatementData_eq)

theorem getStatementData_standardised_witness:
  "getStatementData bare_platform client (JNum (Finite 111052)) (JStr ''pl'') (JStr ''FY'')
     (JNum (Finite 2017)) (JStr ''false'') =
   Sent \<lparr>method = ''GET'',
         uri = ''https://simfin.com/api/v1/companies/id/111052/statements/standardised'',
         qs = [''api-key'' \<mapsto> JStr ''secret'', ''stype'' \<mapsto> JStr ''pl'',
               ''ptype'' \<mapsto> JStr ''FY'', ''fyear'' \<mapsto> JNum (Finite 2017)],
         json = True\<rparr> \<and>
   getStatementData bare_platform client (JNum (Finite 111052)) (JStr ''pl'') (JStr ''FY'')
     (JNum (Finite 2017)) (JNum (Finite 0)) =
   Sent \<lparr>method = ''GET'',
         uri = ''https://simfin.com/api/v1/companies/id/111052/statements/original'',
         qs = [''api-key'' \<mapsto> JStr ''secret'', ''stype'' \<mapsto> JStr ''pl'',
               ''ptype'' \<mapsto> JStr ''FY'', ''fyear'' \<mapsto> JNum (Finite 2017)],
         json = True\<rparr>"
proof -
  note r = getStatementData_standardised [OF valid_companyId_111052 valid_statementType_pl
      valid_periodType_FY valid_fiscalYear_2017, of bare_platform client, unfolded toString_111052]
  show ?thesis
    using r [of "JStr ''false''"] r [of "JNum (Finite 0)"]
    by (simp add: makeRequest_def client_def new_SimFin_def)
qed

end
